theory Spec2Isabelle
  imports Complex_Main
begin

section \<open>Exceptions, statements and the kernel's event log\<close>

text \<open>
  Both notebooks are linear scripts of library calls run in one interactive kernel.
  A statement is a function on the kernel's variable namespace that returns the
  namespace it reaches together with the exception it raised, if any: the namespace
  survives an exception, the rest of the cell does not run. Numbers are modelled as
  reals, arrays as lists (an \<open>(n,1)\<close> column array as the list of its \<open>n\<close> entries).
\<close>

datatype error =
    FileNotFoundError
  | ParserError
  | EmptyDataError
  | KeyError
  | NameError
  | ValueError
  | NotFittedError
  | RuntimeError
  | AssertionError

datatype event =
    FileRead string
  | Display string
  | Plot string
  | PrintTypes
  | CreateOptimiser real
  | PrintLoss nat real
  | Traceback error
  | Timing

type_synonym 's stmt = "'s \<Rightarrow> 's \<times> error option"

text \<open>A simple statement \<open>x = e\<close>: when \<open>e\<close> raises, nothing is assigned.\<close>

definition simple :: "('s \<Rightarrow> error + 's) \<Rightarrow> 's stmt" where
  "simple f s = (case f s of Inl e \<Rightarrow> (s, Some e) | Inr s' \<Rightarrow> (s', None))"

text \<open>A cell, and Run All over the cells: statements in order, up to the first exception.\<close>

fun run_stmts :: "'s stmt list \<Rightarrow> 's stmt" where
  "run_stmts [] s = (s, None)"
| "run_stmts (c # cs) s =
     (case c s of
        (s', None) \<Rightarrow> run_stmts cs s'
      | (s', Some e) \<Rightarrow> (s', Some e))"

text \<open>Reading a variable that no statement has bound yet raises \<open>NameError\<close>.\<close>

definition lookup :: "'a option \<Rightarrow> error + 'a" where
  "lookup v = (case v of None \<Rightarrow> Inl NameError | Some x \<Rightarrow> Inr x)"

definition bind_err :: "error + 'a \<Rightarrow> ('a \<Rightarrow> error + 'b) \<Rightarrow> error + 'b" where
  "bind_err r f = (case r of Inl e \<Rightarrow> Inl e | Inr x \<Rightarrow> f x)"

section \<open>The delimited text file and \<open>pd.read_csv\<close>\<close>

text \<open>
  \<open>pd.read_csv("SN_m_tot_V2.0.csv", sep=";", header=None, names=[...])\<close>.
  The call is a record of its arguments; the file system maps a path to the text
  stored there. On a plain file (every non-blank line has as many fields as there are
  names, no quoting, no carriage return) with \<open>header=None\<close> every line is a data row
  and the columns carry the names passed. What pandas does with any other text
  (padding short rows, an implicit index, a tokenizer error) is the library's and is
  taken from the parameter \<open>other\<close>.
\<close>

record read_csv_args =
  filepath :: string
  sep :: char
  header :: "nat option"
  names :: "string list"

record dataframe =
  columns :: "string list"
  rows :: "string list list"

type_synonym filesys = "string \<rightharpoonup> string"

fun split_on :: "char \<Rightarrow> string \<Rightarrow> string list" where
  "split_on c [] = [[]]"
| "split_on c (x # xs) =
     (if x = c then [] # split_on c xs
      else (case split_on c xs of
              [] \<Rightarrow> [[x]]
            | w # ws \<Rightarrow> (x # w) # ws))"

definition csv_records :: "char \<Rightarrow> string \<Rightarrow> string list list" where
  "csv_records sp txt =
     map (split_on sp) (filter (\<lambda>ln. ln \<noteq> []) (split_on (CHR 0x0A) txt))"

definition plain_csv :: "read_csv_args \<Rightarrow> string \<Rightarrow> bool" where
  "plain_csv args txt =
     (header args = None \<and>
      CHR 0x22 \<notin> set txt \<and> CHR 0x0D \<notin> set txt \<and>
      csv_records (sep args) txt \<noteq> [] \<and>
      list_all (\<lambda>r. length r = length (names args)) (csv_records (sep args) txt))"

definition read_csv ::
  "(read_csv_args \<Rightarrow> string \<Rightarrow> error + dataframe) \<Rightarrow> filesys \<Rightarrow> read_csv_args
     \<Rightarrow> error + dataframe" where
  "read_csv other fs args =
     (case fs (filepath args) of
        None \<Rightarrow> Inl FileNotFoundError
      | Some txt \<Rightarrow>
          if plain_csv args txt
          then Inr \<lparr>columns = names args, rows = csv_records (sep args) txt\<rparr>
          else other args txt)"

text \<open>
  \<open>df[name]\<close>: the column of that name, \<open>KeyError\<close> when there is none. A table
  is rectangular; a row that the library returned shorter than the table is wide
  reads as the empty field there.
\<close>

fun index_of :: "'a \<Rightarrow> 'a list \<Rightarrow> nat option" where
  "index_of x [] = None"
| "index_of x (y # ys) =
     (if x = y then Some 0 else map_option Suc (index_of x ys))"

definition getitem :: "dataframe \<Rightarrow> string \<Rightarrow> error + string list" where
  "getitem df name =
     (case index_of name (columns df) of
        None \<Rightarrow> Inl KeyError
      | Some k \<Rightarrow> Inr (map (\<lambda>r. if k < length r then r ! k else []) (rows df)))"

section \<open>\<open>StandardScaler\<close>\<close>

text \<open>
  \<open>sklearn.preprocessing.StandardScaler\<close>: \<open>fit\<close> stores the mean of the samples
  and a scale, the (population) standard deviation, or 1 for a feature that the
  library finds constant to within the rounding error of its variance. Its test is
  \<^verbatim>\<open>var <= n_samples * eps * var + (n_samples * mean * eps) ** 2\<close> with \<open>eps\<close> the
  machine epsilon of float64, \<open>1 / 2 ^ 52\<close>; a variance of 0 passes it. \<open>transform\<close> maps
  \<open>x\<close> to \<open>(x - mean) / scale\<close> with the stored mean and scale (the attributes
  \<^verbatim>\<open>mean_\<close> and \<^verbatim>\<open>scale_\<close>). \<open>fit\<close> on no samples raises \<open>ValueError\<close>,
  \<open>transform\<close> on an unfitted scaler raises \<open>NotFittedError\<close>. Numbers are reals
  here: the rounding and the overflow of float64 arithmetic are not modelled.
\<close>

definition mean :: "real list \<Rightarrow> real" where
  "mean xs = sum_list xs / real (length xs)"





datatype StandardScaler = Unfitted | Fitted (sc_mean : real) (sc_scale : real)



section \<open>Arrays: \<open>linspace\<close>, slices and \<open>reshape\<close>\<close>


text \<open>
  \<open>xs.reshape(r, -1)\<close>: \<open>r\<close> rows of \<open>len(xs) / r\<close> entries in row-major order,
  \<open>ValueError\<close> when \<open>r\<close> does not divide the size.
\<close>

definition reshape :: "nat \<Rightarrow> 'a list \<Rightarrow> error + 'a list list" where
  "reshape r xs =
     (if r = 0 \<or> length xs mod r \<noteq> 0 then Inl ValueError
      else Inr (map (\<lambda>i. take (length xs div r) (drop (i * (length xs div r)) xs)) [0..<r]))"

text \<open>The slices \<open>xs[:-k]\<close> and \<open>xs[-k:]\<close> for \<open>k > 0\<close>.\<close>

definition but_last_n :: "nat \<Rightarrow> 'a list \<Rightarrow> 'a list" where
  "but_last_n k xs = take (length xs - k) xs"

definition last_n :: "nat \<Rightarrow> 'a list \<Rightarrow> 'a list" where
  "last_n k xs = drop (length xs - k) xs"

section \<open>The network \<open>FCN\<close>\<close>

text \<open>
  \<open>nn.Linear(i, o)\<close> holds a weight matrix of \<open>o\<close> rows and \<open>i\<close> columns and a bias
  of \<open>o\<close> entries, drawn by the library's initialiser; applied to a vector whose
  length is not \<open>i\<close> it raises \<open>RuntimeError\<close> (shape mismatch).
\<close>

record linear =
  in_features :: nat
  out_features :: nat
  weight :: "real list list"
  bias :: "real list"

definition Linear :: "(nat \<Rightarrow> nat \<Rightarrow> real) \<Rightarrow> (nat \<Rightarrow> real) \<Rightarrow> nat \<Rightarrow> nat \<Rightarrow> linear" where
  "Linear w0 b0 n_in n_out =
     \<lparr>in_features = n_in, out_features = n_out,
      weight = map (\<lambda>r. map (w0 r) [0..<n_in]) [0..<n_out],
      bias = map b0 [0..<n_out]\<rparr>"

definition dot :: "real list \<Rightarrow> real list \<Rightarrow> real" where
  "dot u v = sum_list (map2 (*) u v)"

definition linear_call :: "linear \<Rightarrow> real list \<Rightarrow> error + real list" where
  "linear_call l x =
     (if length x \<noteq> in_features l then Inl RuntimeError
      else Inr (map2 (\<lambda>row b. dot row x + b) (weight l) (bias l)))"

definition relu :: "real list \<Rightarrow> real list" where
  "relu v = map (max 0) v"

record FCN =
  fc1 :: linear
  fc1b :: linear
  fc2 :: linear
  training :: bool

definition FCN_init :: "(string \<Rightarrow> nat \<Rightarrow> nat \<Rightarrow> real) \<Rightarrow> (string \<Rightarrow> nat \<Rightarrow> real) \<Rightarrow> FCN" where
  "FCN_init w0 b0 =
     \<lparr>fc1 = Linear (w0 ''fc1'') (b0 ''fc1'') 135 1000,
      fc1b = Linear (w0 ''fc1b'') (b0 ''fc1b'') 1000 1000,
      fc2 = Linear (w0 ''fc2'') (b0 ''fc2'') 1000 135,
      training = True\<rparr>"

definition forward :: "FCN \<Rightarrow> real list \<Rightarrow> error + real list" where
  "forward net x =
     bind_err (linear_call (fc1 net) x) (\<lambda>out1.
     bind_err (linear_call (fc1b net) (relu out1)) (\<lambda>out2.
     linear_call (fc2 net) (relu out2)))"

text \<open>Calling the network on a batch applies \<open>forward\<close> along the last axis.\<close>

fun all_ok :: "(error + 'a) list \<Rightarrow> error + 'a list" where
  "all_ok [] = Inr []"
| "all_ok (r # rs) =
     (case r of
        Inl e \<Rightarrow> Inl e
      | Inr x \<Rightarrow> (case all_ok rs of Inl e \<Rightarrow> Inl e | Inr xs \<Rightarrow> Inr (x # xs)))"

definition forward_batch :: "FCN \<Rightarrow> real list list \<Rightarrow> error + real list list" where
  "forward_batch net X = all_ok (map (forward net) X)"

section \<open>Datasets and loaders\<close>

record TensorDataset =
  tensors_x :: "real list list"
  tensors_y :: "real list list"

definition new_TensorDataset :: "real list list \<Rightarrow> real list list \<Rightarrow> error + TensorDataset" where
  "new_TensorDataset X Y =
     (if length X \<noteq> length Y then Inl AssertionError
      else Inr \<lparr>tensors_x = X, tensors_y = Y\<rparr>)"

text \<open>\<open>DataLoader(ds, batch_size=b, shuffle=False)\<close>: the samples in order, \<open>b\<close> at a time.\<close>

record DataLoader =
  dataset :: TensorDataset
  batch_size :: nat

definition batches :: "DataLoader \<Rightarrow> (real list list \<times> real list list) list" where
  "batches dl =
     map (\<lambda>i. (take (batch_size dl) (drop (i * batch_size dl) (tensors_x (dataset dl))),
               take (batch_size dl) (drop (i * batch_size dl) (tensors_y (dataset dl)))))
         [0..<(length (tensors_x (dataset dl)) + batch_size dl - 1) div batch_size dl]"

section \<open>The library and the kernel's namespace\<close>

text \<open>
  The first cell of the forecasting notebook imports the libraries. What the
  properties below do not depend on is taken from them as a parameter: the numeric
  conversion of a text field (the columns of the sunspot file are numeric; a column
  that pandas would keep as text is outside this model), pandas on a text that is
  not a plain file, the kernel regressors, the initialiser of the network, the loss,
  its gradient and the update of Adam.
\<close>

record ('m, 'g, 'o) lib =
  to_float :: "string \<Rightarrow> real"
  csv_other :: "read_csv_args \<Rightarrow> string \<Rightarrow> error + dataframe"
  svr_fit :: "real list \<Rightarrow> real list \<Rightarrow> error + 'm"
  krr_fit :: "real list \<Rightarrow> real list \<Rightarrow> error + 'm"
  predict :: "'m \<Rightarrow> real list \<Rightarrow> real list"
  init_weight :: "string \<Rightarrow> nat \<Rightarrow> nat \<Rightarrow> real"
  init_bias :: "string \<Rightarrow> nat \<Rightarrow> real"
  mse_loss :: "real list list \<Rightarrow> real list list \<Rightarrow> real"
  backward :: "FCN \<Rightarrow> real list list \<Rightarrow> real list list \<Rightarrow> 'g"
  adam_init :: "FCN \<Rightarrow> 'o"
  adam_step :: "real \<Rightarrow> 'o \<Rightarrow> 'g \<Rightarrow> FCN \<Rightarrow> 'o \<times> FCN"

datatype 'm regressor = Untrained | Trained 'm

datatype ndarray = Arr1 "real list" | Arr3 "real list list list"

record 'o Adam =
  opt_lr :: real
  opt_state :: 'o

text \<open>
  The namespace of the forecasting notebook: one field per variable the notebook
  assigns (\<open>None\<close> while unbound), the gradient buffers of the network's parameters,
  and the log of what the kernel read, showed and printed.
\<close>

record ('m, 'g, 'o) nb =
  v_ss_data :: "dataframe option"
  v_time :: "real list option"
  v_ss_number :: "real list option"
  v_ss :: "StandardScaler option"
  v_time_ss :: "real list option"
  v_svr :: "'m regressor option"
  v_inf :: "real list option"
  v_inf_ss :: "real list option"
  v_curve_fit :: "ndarray option"
  v_krr :: "'m regressor option"
  v_curve_fit_k :: "real list option"
  v_a :: "real list option"
  v_b :: "real list option"
  v_c :: "real list option"
  v_times_rs :: "real list list option"
  v_ss_number_rs :: "real list list option"
  v_train_dataset :: "TensorDataset option"
  v_val_dataset :: "TensorDataset option"
  v_train_loader :: "DataLoader option"
  v_val_loader :: "DataLoader option"
  v_fcn :: "FCN option"
  v_grad :: "'g option"
  v_n_epochs :: "nat option"
  v_lr :: "real option"
  v_optimiser :: "'o Adam option"
  v_loss :: "unit option"
  v_j :: "nat option"
  v_inp :: "real list list option"
  v_out :: "real list list option"
  v_model :: "real list list option"
  v_l :: "real option"
  v_losses :: "real list option"
  events :: "event list"

definition fresh :: "('m, 'g, 'o) nb" where
  "fresh =
     \<lparr>v_ss_data = None, v_time = None, v_ss_number = None, v_ss = None, v_time_ss = None,
      v_svr = None, v_inf = None, v_inf_ss = None, v_curve_fit = None, v_krr = None,
      v_curve_fit_k = None, v_a = None, v_b = None, v_c = None, v_times_rs = None,
      v_ss_number_rs = None, v_train_dataset = None, v_val_dataset = None,
      v_train_loader = None, v_val_loader = None, v_fcn = None, v_grad = None,
      v_n_epochs = None, v_lr = None, v_optimiser = None, v_loss = None, v_j = None,
      v_inp = None, v_out = None, v_model = None, v_l = None, v_losses = None,
      events = []\<rparr>"

section \<open>The forecasting notebook, statement by statement\<close>

subsection \<open>Preparing the data\<close>

definition ss_data_args :: read_csv_args where
  "ss_data_args =
     \<lparr>filepath = ''SN_m_tot_V2.0.csv'', sep = CHR '';'', header = None,
      names = [''Year'', ''Month'', ''Date in fraction of year'', ''Monthly mean'',
               ''Monthly standard deviation'', ''Number of observations'',
               ''Definitive/provisional marker'']\<rparr>"

definition cell_read_csv :: "('m, 'g, 'o) lib \<Rightarrow> filesys \<Rightarrow> ('m, 'g, 'o) nb stmt" where
  "cell_read_csv L fs s =
     (case fs (filepath ss_data_args) of
        None \<Rightarrow> (s, Some FileNotFoundError)
      | Some txt \<Rightarrow>
          (case read_csv (csv_other L) fs ss_data_args of
             Inl e \<Rightarrow> (s\<lparr>events := events s @ [FileRead (filepath ss_data_args)]\<rparr>, Some e)
           | Inr df \<Rightarrow>
               (s\<lparr>v_ss_data := Some df,
                  events := events s @ [FileRead (filepath ss_data_args)]\<rparr>, None)))"



definition stmt_time :: "('m, 'g, 'o) lib \<Rightarrow> ('m, 'g, 'o) nb stmt" where
  "stmt_time L = simple (\<lambda>s.
     bind_err (lookup (v_ss_data s)) (\<lambda>df.
     bind_err (getitem df ''Date in fraction of year'') (\<lambda>col.
     Inr (s\<lparr>v_time := Some (map (to_float L) col)\<rparr>))))"

definition stmt_ss_number :: "('m, 'g, 'o) lib \<Rightarrow> ('m, 'g, 'o) nb stmt" where
  "stmt_ss_number L = simple (\<lambda>s.
     bind_err (lookup (v_ss_data s)) (\<lambda>df.
     bind_err (getitem df ''Monthly mean'') (\<lambda>col.
     Inr (s\<lparr>v_ss_number := Some (map (to_float L) col)\<rparr>))))"




subsection \<open>The kernel regressors\<close>

text \<open>
  \<open>fit(X, y)\<close> of a scikit-learn regressor raises \<open>ValueError\<close> on no samples or on
  \<open>X\<close> and \<open>y\<close> of different lengths, and whatever the library's solver raises on
  the data (a kernel that overflows, say); \<open>predict\<close> before \<open>fit\<close> raises
  \<open>NotFittedError\<close>.
\<close>

definition regressor_fit ::
  "(real list \<Rightarrow> real list \<Rightarrow> error + 'm) \<Rightarrow> real list \<Rightarrow> real list
     \<Rightarrow> error + 'm regressor" where
  "regressor_fit f X y =
     (if X = [] \<or> length X \<noteq> length y then Inl ValueError
      else (case f X y of Inl e \<Rightarrow> Inl e | Inr m \<Rightarrow> Inr (Trained m)))"



definition stmt_svr_fit :: "('m, 'g, 'o) lib \<Rightarrow> ('m, 'g, 'o) nb stmt" where
  "stmt_svr_fit L = simple (\<lambda>s.
     bind_err (lookup (v_svr s)) (\<lambda>r.
     bind_err (lookup (v_time_ss s)) (\<lambda>X.
     bind_err (lookup (v_ss_number s)) (\<lambda>y.
     bind_err (regressor_fit (svr_fit L) X y) (\<lambda>r'.
     Inr (s\<lparr>v_svr := Some r'\<rparr>))))))"

text \<open>
  The cell that fits the support vector regressor starts with the cell magic
  \<^verbatim>\<open>%%time\<close>. IPython's \<open>time\<close> magic runs the body of the cell itself: when the
  body raises it shows the traceback and returns, so the cell ends without an
  exception and Run All goes on; otherwise it prints the time the body took.
\<close>

definition time_magic :: "('m, 'g, 'o) nb stmt \<Rightarrow> ('m, 'g, 'o) nb stmt" where
  "time_magic body s =
     (case body s of
        (s', Some e) \<Rightarrow> (s'\<lparr>events := events s' @ [Traceback e]\<rparr>, None)
      | (s', None) \<Rightarrow> (s'\<lparr>events := events s' @ [Timing]\<rparr>, None))"

definition cell_svr_fit :: "('m, 'g, 'o) lib \<Rightarrow> ('m, 'g, 'o) nb stmt" where
  "cell_svr_fit L = time_magic (stmt_svr_fit L)"











subsection \<open>Tensors, datasets and loaders\<close>


definition stmt_times_rs :: "('m, 'g, 'o) nb stmt" where
  "stmt_times_rs = simple (\<lambda>s.
     bind_err (lookup (v_time_ss s)) (\<lambda>z.
     bind_err (reshape 24 (drop 8 z)) (\<lambda>w.
     Inr (s\<lparr>v_times_rs := Some w\<rparr>))))"

definition stmt_ss_number_rs :: "('m, 'g, 'o) nb stmt" where
  "stmt_ss_number_rs = simple (\<lambda>s.
     bind_err (lookup (v_ss_number s)) (\<lambda>y.
     bind_err (reshape 24 (drop 8 y)) (\<lambda>w.
     Inr (s\<lparr>v_ss_number_rs := Some w\<rparr>))))"

definition stmt_train_dataset :: "('m, 'g, 'o) nb stmt" where
  "stmt_train_dataset = simple (\<lambda>s.
     bind_err (lookup (v_times_rs s)) (\<lambda>X.
     bind_err (lookup (v_ss_number_rs s)) (\<lambda>Y.
     bind_err (new_TensorDataset (but_last_n 2 X) (but_last_n 2 Y)) (\<lambda>ds.
     Inr (s\<lparr>v_train_dataset := Some ds\<rparr>)))))"

definition stmt_val_dataset :: "('m, 'g, 'o) nb stmt" where
  "stmt_val_dataset = simple (\<lambda>s.
     bind_err (lookup (v_times_rs s)) (\<lambda>X.
     bind_err (lookup (v_ss_number_rs s)) (\<lambda>Y.
     bind_err (new_TensorDataset (last_n 2 X) (last_n 2 Y)) (\<lambda>ds.
     Inr (s\<lparr>v_val_dataset := Some ds\<rparr>)))))"


subsection \<open>Training\<close>

definition stmt_fcn :: "('m, 'g, 'o) lib \<Rightarrow> ('m, 'g, 'o) nb stmt" where
  "stmt_fcn L = simple (\<lambda>s.
     Inr (s\<lparr>v_fcn := Some (FCN_init (init_weight L) (init_bias L)), v_grad := None\<rparr>))"

definition stmt_n_epochs :: "('m, 'g, 'o) nb stmt" where
  "stmt_n_epochs = simple (\<lambda>s. Inr (s\<lparr>v_n_epochs := Some 100\<rparr>))"

definition stmt_lr :: "('m, 'g, 'o) nb stmt" where
  "stmt_lr = simple (\<lambda>s. Inr (s\<lparr>v_lr := Some (5 / 1000)\<rparr>))"

definition stmt_optimiser :: "('m, 'g, 'o) lib \<Rightarrow> ('m, 'g, 'o) nb stmt" where
  "stmt_optimiser L = simple (\<lambda>s.
     bind_err (lookup (v_fcn s)) (\<lambda>net.
     bind_err (lookup (v_lr s)) (\<lambda>r.
     Inr (s\<lparr>v_optimiser := Some \<lparr>opt_lr = r, opt_state = adam_init L net\<rparr>,
            events := events s @ [CreateOptimiser r]\<rparr>))))"

definition stmt_loss :: "('m, 'g, 'o) nb stmt" where
  "stmt_loss = simple (\<lambda>s. Inr (s\<lparr>v_loss := Some ()\<rparr>))"

text \<open>The body of \<open>for inp, out in train_loader\<close>, for the batch \<open>(X, Y)\<close>.\<close>

definition t_unpack :: "real list list \<times> real list list \<Rightarrow> ('m, 'g, 'o) nb stmt" where
  "t_unpack batch = simple (\<lambda>s. Inr (s\<lparr>v_inp := Some (fst batch), v_out := Some (snd batch)\<rparr>))"

definition t_zero_grad :: "('m, 'g, 'o) nb stmt" where
  "t_zero_grad = simple (\<lambda>s.
     bind_err (lookup (v_optimiser s)) (\<lambda>opt.
     Inr (s\<lparr>v_grad := None\<rparr>)))"

definition t_model :: "('m, 'g, 'o) nb stmt" where
  "t_model = simple (\<lambda>s.
     bind_err (lookup (v_fcn s)) (\<lambda>net.
     bind_err (lookup (v_inp s)) (\<lambda>X.
     bind_err (forward_batch net X) (\<lambda>Y.
     Inr (s\<lparr>v_model := Some Y\<rparr>)))))"

definition t_l :: "('m, 'g, 'o) lib \<Rightarrow> ('m, 'g, 'o) nb stmt" where
  "t_l L = simple (\<lambda>s.
     bind_err (lookup (v_loss s)) (\<lambda>_.
     bind_err (lookup (v_model s)) (\<lambda>Y.
     bind_err (lookup (v_out s)) (\<lambda>T.
     Inr (s\<lparr>v_l := Some (mse_loss L Y T)\<rparr>)))))"

text \<open>
  \<open>l.backward()\<close> fills the gradient buffers from the graph of the last forward call
  (the network, the batch and its targets); in the loop the buffers were cleared just
  before. \<open>optimiser.step()\<close> updates the parameters in place from the buffers, and
  skips parameters without a gradient.
\<close>

definition t_backward :: "('m, 'g, 'o) lib \<Rightarrow> ('m, 'g, 'o) nb stmt" where
  "t_backward L = simple (\<lambda>s.
     bind_err (lookup (v_l s)) (\<lambda>_.
     bind_err (lookup (v_fcn s)) (\<lambda>net.
     bind_err (lookup (v_inp s)) (\<lambda>X.
     bind_err (lookup (v_out s)) (\<lambda>T.
     Inr (s\<lparr>v_grad := Some (backward L net X T)\<rparr>))))))"

definition t_step :: "('m, 'g, 'o) lib \<Rightarrow> ('m, 'g, 'o) nb stmt" where
  "t_step L = simple (\<lambda>s.
     bind_err (lookup (v_optimiser s)) (\<lambda>opt.
     bind_err (lookup (v_fcn s)) (\<lambda>net.
     (case v_grad s of
        None \<Rightarrow> Inr s
      | Some g \<Rightarrow>
          (case adam_step L (opt_lr opt) (opt_state opt) g net of
             (st', net') \<Rightarrow>
               Inr (s\<lparr>v_fcn := Some net', v_optimiser := Some (opt\<lparr>opt_state := st'\<rparr>)\<rparr>))))))"

definition train_body ::
  "('m, 'g, 'o) lib \<Rightarrow> real list list \<times> real list list \<Rightarrow> ('m, 'g, 'o) nb stmt" where
  "train_body L batch =
     run_stmts [t_unpack batch, t_zero_grad, t_model, t_l L, t_backward L, t_step L]"

text \<open>The body of \<open>for inp, out in val_loader\<close> under \<open>torch.no_grad()\<close>.\<close>

definition val_append :: "('m, 'g, 'o) nb stmt" where
  "val_append = simple (\<lambda>s.
     bind_err (lookup (v_losses s)) (\<lambda>ls.
     bind_err (lookup (v_l s)) (\<lambda>x.
     Inr (s\<lparr>v_losses := Some (ls @ [x])\<rparr>))))"

definition val_body ::
  "('m, 'g, 'o) lib \<Rightarrow> real list list \<times> real list list \<Rightarrow> ('m, 'g, 'o) nb stmt" where
  "val_body L batch = run_stmts [t_unpack batch, t_model, t_l L, val_append]"

definition for_loader ::
  "(('m, 'g, 'o) nb \<Rightarrow> DataLoader option)
     \<Rightarrow> (real list list \<times> real list list \<Rightarrow> ('m, 'g, 'o) nb stmt) \<Rightarrow> ('m, 'g, 'o) nb stmt" where
  "for_loader var body s =
     (case lookup (var s) of
        Inl e \<Rightarrow> (s, Some e)
      | Inr dl \<Rightarrow> run_stmts (map body (batches dl)) s)"

definition set_mode :: "bool \<Rightarrow> ('m, 'g, 'o) nb stmt" where
  "set_mode b = simple (\<lambda>s.
     bind_err (lookup (v_fcn s)) (\<lambda>net.
     Inr (s\<lparr>v_fcn := Some (net\<lparr>training := b\<rparr>)\<rparr>)))"

definition e_j :: "nat \<Rightarrow> ('m, 'g, 'o) nb stmt" where
  "e_j j = simple (\<lambda>s. Inr (s\<lparr>v_j := Some j\<rparr>))"

definition e_losses :: "('m, 'g, 'o) nb stmt" where
  "e_losses = simple (\<lambda>s. Inr (s\<lparr>v_losses := Some []\<rparr>))"

definition e_print :: "('m, 'g, 'o) nb stmt" where
  "e_print = simple (\<lambda>s.
     bind_err (lookup (v_j s)) (\<lambda>j.
     bind_err (lookup (v_losses s)) (\<lambda>ls.
     Inr (s\<lparr>events := events s @ [PrintLoss j (mean ls)]\<rparr>))))"

definition train_phase :: "('m, 'g, 'o) lib \<Rightarrow> ('m, 'g, 'o) nb stmt" where
  "train_phase L = run_stmts [set_mode True, for_loader v_train_loader (train_body L)]"

definition validation_phase :: "('m, 'g, 'o) lib \<Rightarrow> ('m, 'g, 'o) nb stmt" where
  "validation_phase L =
     run_stmts [set_mode False, e_losses, for_loader v_val_loader (val_body L)]"

definition epoch :: "('m, 'g, 'o) lib \<Rightarrow> nat \<Rightarrow> ('m, 'g, 'o) nb stmt" where
  "epoch L j = run_stmts [e_j j, train_phase L, validation_phase L, e_print]"

definition cell_train :: "('m, 'g, 'o) lib \<Rightarrow> ('m, 'g, 'o) nb stmt" where
  "cell_train L s =
     (case lookup (v_n_epochs s) of
        Inl e \<Rightarrow> (s, Some e)
      | Inr n \<Rightarrow> run_stmts (map (epoch L) [0..<n]) s)"

subsection \<open>Inference with the network, and the whole notebook\<close>







definition setup_cell :: "('m, 'g, 'o) lib \<Rightarrow> ('m, 'g, 'o) nb stmt list" where
  "setup_cell L = [stmt_fcn L, stmt_n_epochs, stmt_lr, stmt_optimiser L, stmt_loss]"



text \<open>The shapes \<open>FCN.__init__\<close> gives the three layers, and the weights of a network.\<close>

definition linear_shape :: "nat \<Rightarrow> nat \<Rightarrow> linear \<Rightarrow> bool" where
  "linear_shape n_in n_out l =
     (in_features l = n_in \<and> out_features l = n_out \<and>
      length (weight l) = n_out \<and> length (bias l) = n_out \<and>
      list_all (\<lambda>row. length row = n_in) (weight l))"

definition fcn_shapes :: "FCN \<Rightarrow> bool" where
  "fcn_shapes net =
     (linear_shape 135 1000 (fc1 net) \<and> linear_shape 1000 1000 (fc1b net) \<and>
      linear_shape 1000 135 (fc2 net))"

definition weights :: "FCN \<Rightarrow> linear \<times> linear \<times> linear" where
  "weights net = (fc1 net, fc1b net, fc2 net)"

text \<open>What training may change: the weights, the optimiser and the gradient buffers.\<close>

definition trained_state ::
  "('m, 'g, 'o) nb \<Rightarrow> (linear \<times> linear \<times> linear) option \<times> 'o Adam option \<times> 'g option" where
  "trained_state s = (map_option weights (v_fcn s), v_optimiser s, v_grad s)"

text \<open>
  What the training loop relies on: before an epoch the network has the shapes of
  \<open>FCN()\<close>, the optimiser is the Adam instance with learning rate 0.005, the loss
  and the two loaders are bound and \<open>n_epochs\<close> is 100; the update of Adam, which
  works parameter by parameter, returns a network of the same shapes.
\<close>

definition train_inv :: "DataLoader \<Rightarrow> DataLoader \<Rightarrow> ('m, 'g, 'o) nb \<Rightarrow> bool" where
  "train_inv trl vl s =
     ((case v_fcn s of None \<Rightarrow> False | Some net \<Rightarrow> fcn_shapes net) \<and>
      (case v_optimiser s of None \<Rightarrow> False | Some opt \<Rightarrow> opt_lr opt = 5 / 1000) \<and>
      v_loss s = Some () \<and> v_train_loader s = Some trl \<and> v_val_loader s = Some vl \<and>
      v_n_epochs s = Some 100)"

definition keeps_shapes :: "('m, 'g, 'o) lib \<Rightarrow> bool" where
  "keeps_shapes L =
     (\<forall>r st g net. fcn_shapes net \<longrightarrow> fcn_shapes (snd (adam_step L r st g net)))"

definition rows135 :: "DataLoader \<Rightarrow> bool" where
  "rows135 dl = list_all (\<lambda>row. length row = 135) (tensors_x (dataset dl))"

definition demo_loader :: "nat \<Rightarrow> DataLoader" where
  "demo_loader n =
     \<lparr>dataset = \<lparr>tensors_x = replicate n (replicate 135 0),
                 tensors_y = replicate n (replicate 135 0)\<rparr>,
      batch_size = 64\<rparr>"

text \<open>What the preparation of the data binds.\<close>

definition prepared ::
  "('m, 'g, 'o) nb \<Rightarrow>
     real list option \<times> real list option \<times> StandardScaler option \<times> real list option" where
  "prepared s = (v_time s, v_ss_number s, v_ss s, v_time_ss s)"

section \<open>The clustering notebook\<close>

text \<open>
  \<open>np.load("data.npz")\<close> gives a dictionary of the arrays packed in the file, by
  name; \<open>[...]\<close> with a name that is not there raises \<open>KeyError\<close>. The namespace
  holds the names bound by the import statements, \<open>data\<close>, and \<open>pca\<close>, which the
  bar chart reads and which no cell of the notebook assigns (the analysis cells are
  left for the reader to write).
\<close>

type_synonym matrix = "real list list"

type_synonym npz = "(string \<times> matrix) list"

type_synonym npz_filesys = "string \<rightharpoonup> npz"

definition npz_getitem :: "npz \<Rightarrow> string \<Rightarrow> error + matrix" where
  "npz_getitem f key = (case map_of f key of None \<Rightarrow> Inl KeyError | Some m \<Rightarrow> Inr m)"

record PCA =
  explained_variance_ratio :: "real list"

record ex =
  x_modules :: "string list"
  x_data :: "matrix option"
  x_pca :: "PCA option"
  x_events :: "event list"

definition ex_fresh :: ex where
  "ex_fresh = \<lparr>x_modules = [], x_data = None, x_pca = None, x_events = []\<rparr>"

definition need :: "string \<Rightarrow> ex \<Rightarrow> error + unit" where
  "need name s = (if name \<in> set (x_modules s) then Inr () else Inl NameError)"

definition ex_magic :: "ex stmt" where
  "ex_magic = simple (\<lambda>s. Inr s)"

definition ex_imports :: "ex stmt" where
  "ex_imports = simple (\<lambda>s. Inr (s\<lparr>x_modules := x_modules s @ [''np'', ''plt'']\<rparr>))"

definition ex_load :: "npz_filesys \<Rightarrow> ex stmt" where
  "ex_load fs s =
     (case need ''np'' s of
        Inl e \<Rightarrow> (s, Some e)
      | Inr _ \<Rightarrow>
          (case fs ''data.npz'' of
             None \<Rightarrow> (s, Some FileNotFoundError)
           | Some f \<Rightarrow>
               (case npz_getitem f ''data'' of
                  Inl e \<Rightarrow> (s\<lparr>x_events := x_events s @ [FileRead ''data.npz'']\<rparr>, Some e)
                | Inr m \<Rightarrow>
                    (s\<lparr>x_data := Some m,
                       x_events := x_events s @ [FileRead ''data.npz'']\<rparr>, None))))"

definition ex_import_PCA :: "ex stmt" where
  "ex_import_PCA = simple (\<lambda>s. Inr (s\<lparr>x_modules := x_modules s @ [''PCA'']\<rparr>))"

definition ex_figure :: "ex stmt" where
  "ex_figure = simple (\<lambda>s.
     bind_err (need ''plt'' s) (\<lambda>_.
     Inr (s\<lparr>x_events := x_events s @ [Plot ''figure'']\<rparr>)))"

definition ex_bar :: "ex stmt" where
  "ex_bar = simple (\<lambda>s.
     bind_err (need ''plt'' s) (\<lambda>_.
     bind_err (need ''np'' s) (\<lambda>_.
     bind_err (lookup (x_pca s)) (\<lambda>p.
     bind_err (if length (explained_variance_ratio p) = 10 then Inr () else Inl ValueError) (\<lambda>_.
     Inr (s\<lparr>x_events := x_events s @ [Plot ''bar'']\<rparr>))))))"

definition ex_axes :: "ex stmt" where
  "ex_axes = simple (\<lambda>s.
     bind_err (need ''plt'' s) (\<lambda>_.
     Inr (s\<lparr>x_events := x_events s @ [Plot ''axes'']\<rparr>)))"

definition ex_import_scipy :: "ex stmt" where
  "ex_import_scipy = simple (\<lambda>s.
     Inr (s\<lparr>x_modules := x_modules s @ [''linkage'', ''dendrogram'', ''fcluster'']\<rparr>))"

definition after_load :: "ex stmt list" where
  "after_load = [ex_import_PCA, ex_figure, ex_bar, ex_axes, ex_import_scipy]"

definition exercises :: "npz_filesys \<Rightarrow> ex stmt list" where
  "exercises fs = [ex_magic, ex_imports, ex_load fs] @ after_load"

definition is_read :: "event \<Rightarrow> bool" where
  "is_read ev = (case ev of FileRead p \<Rightarrow> True | _ \<Rightarrow> False)"

definition has_shape :: "nat \<Rightarrow> nat \<Rightarrow> matrix \<Rightarrow> bool" where
  "has_shape r c m = (length m = r \<and> list_all (\<lambda>row. length row = c) m)"

definition data_npz_as_specified :: "npz \<Rightarrow> bool" where
  \<comment> \<open>Modelled from the spec: the file \<open>data.npz\<close> is not among the sources. The spec
      describes it as one packed-array file of two named numeric arrays; the notebook
      says the sample matrix is saved under the key \<open>data\<close>.\<close>
  "data_npz_as_specified f =
     (length f = 2 \<and> distinct (map fst f) \<and> ''data'' \<in> set (map fst f))"

definition sample_matrix_as_specified :: "npz \<Rightarrow> bool" where
  \<comment> \<open>Modelled from the spec: the file \<open>data.npz\<close> is not among the sources. The spec
      gives the sample matrix the fixed shape 400 by 10 (the notebook: 10 features
      with 400 samples).\<close>
  "sample_matrix_as_specified f =
     (case map_of f ''data'' of None \<Rightarrow> False | Some m \<Rightarrow> has_shape 400 10 m)"

definition demo_npz :: npz where
  "demo_npz = [(''data'', replicate 400 (replicate 10 0)), (''labels'', [replicate 400 0])]"

definition demo_npz_fs :: npz_filesys where
  "demo_npz_fs = [''data.npz'' \<mapsto> demo_npz]"

section \<open>A concrete library instance\<close>

text \<open>
  To run the model on concrete inputs the library parameter is instantiated. Fields
  are read as unsigned decimal literals. A text that is not a plain file is read as
  the tokenizer of pandas reads a text without quotes: no line is
  \<open>EmptyDataError\<close>, a line with more fields than the first line is a
  \<open>ParserError\<close>, shorter lines are padded with empty fields up to the number of
  names, and when the lines have more fields than there are names the leading
  fields are the index and the names label the last ones. The regressors fit without
  a fault and predict 0, the network starts at 0 and the optimiser leaves it there.
\<close>

definition ragged_csv :: "read_csv_args \<Rightarrow> string \<Rightarrow> error + dataframe" where
  "ragged_csv args content =
     (case csv_records (sep args) content of
        [] \<Rightarrow> Inl EmptyDataError
      | r0 # rest \<Rightarrow>
          if list_all (\<lambda>r. length r \<le> length r0) rest
          then Inr \<lparr>columns = names args,
                    rows = map (\<lambda>r. drop (length r0 - length (names args))
                                     (r @ replicate (max (length r0) (length (names args)) - length r) []))
                             (r0 # rest)\<rparr>
          else Inl ParserError)"

definition digits_val :: "string \<Rightarrow> nat" where
  "digits_val str = foldl (\<lambda>n c. 10 * n + (of_char c - 48)) 0 str"

definition decimal :: "string \<Rightarrow> real" where
  "decimal str =
     real (digits_val (takeWhile (\<lambda>c. c \<noteq> CHR ''.'') str)) +
     real (digits_val (drop 1 (dropWhile (\<lambda>c. c \<noteq> CHR ''.'') str))) /
       10 ^ length (drop 1 (dropWhile (\<lambda>c. c \<noteq> CHR ''.'') str))"

definition demo_lib :: "(unit, unit, unit) lib" where
  "demo_lib =
     \<lparr>to_float = decimal,
      csv_other = ragged_csv,
      svr_fit = (\<lambda>X y. Inr ()),
      krr_fit = (\<lambda>X y. Inr ()),
      predict = (\<lambda>m X. map (\<lambda>x. 0) X),
      init_weight = (\<lambda>name r c. 0),
      init_bias = (\<lambda>name r. 0),
      mse_loss = (\<lambda>Y T. mean (map2 (\<lambda>y t. (y - t)\<^sup>2) (concat Y) (concat T))),
      backward = (\<lambda>net X T. ()),
      adam_init = (\<lambda>net. ()),
      adam_step = (\<lambda>r st g net. (st, net))\<rparr>"

definition demo_csv :: string where
  "demo_csv =
     ''1749;01;1;96.7;-1.0;-1;1'' @ [CHR 0x0A] @ ''1749;02;3;104.3;-1.0;-1;1'' @ [CHR 0x0A]"

definition demo_fs :: filesys where
  "demo_fs = [''SN_m_tot_V2.0.csv'' \<mapsto> demo_csv]"

definition demo_df :: dataframe where
  "demo_df =
     \<lparr>columns = names ss_data_args,
      rows = [[''1749'', ''01'', ''1'', ''96.7'', ''-1.0'', ''-1'', ''1''],
              [''1749'', ''02'', ''3'', ''104.3'', ''-1.0'', ''-1'', ''1'']]\<rparr>"




section \<open>Properties\<close>

subsection \<open>Statements that leave a part of the namespace alone\<close>

lemma simple_frame:
  assumes "\<And>s s'. f s = Inr s' \<Longrightarrow> g s' = g s"
  shows "g (fst (simple f s)) = g s"
  using assms by (auto simp: simple_def split: sum.splits)

lemma run_stmts_frame:
  assumes "\<And>c s. c \<in> set cs \<Longrightarrow> g (fst (c s)) = g s"
  shows "g (fst (run_stmts cs s)) = g s"
  using assms
proof (induction cs arbitrary: s)
  case Nil
  then show ?case by simp
next
  case (Cons c cs)
  have c: "g (fst (c s)) = g s" using Cons.prems by simp
  show ?case
  proof (cases "c s")
    case (Pair s1 r)
    with c have g1: "g s1 = g s" by simp
    show ?thesis
    proof (cases r)
      case None
      with Pair have "run_stmts (c # cs) s = run_stmts cs s1" by simp
      moreover have "g (fst (run_stmts cs s1)) = g s1"
        using Cons.IH Cons.prems by simp
      ultimately show ?thesis using g1 by simp
    next
      case (Some e)
      with Pair g1 show ?thesis by simp
    qed
  qed
qed

lemma run_stmts_append:
  "run_stmts (cs @ ds) s =
     (case run_stmts cs s of (s', None) \<Rightarrow> run_stmts ds s' | (s', Some e) \<Rightarrow> (s', Some e))"
  by (induction cs arbitrary: s) (auto split: prod.splits option.splits)

lemma for_loader_frame:
  assumes "\<And>b s. g (fst (body b s)) = g s"
  shows "g (fst (for_loader var body s)) = g s"
proof (cases "var s")
  case None
  then show ?thesis by (simp add: for_loader_def lookup_def)
next
  case (Some dl)
  have "g (fst (run_stmts (map body (batches dl)) s)) = g s"
    by (rule run_stmts_frame) (auto simp: assms)
  with Some show ?thesis by (simp add: for_loader_def lookup_def)
qed

lemma list_all_replicate: "list_all P (replicate n x) = (n = 0 \<or> P x)"
  by (induction n) auto

lemma demo_npz_spec: "data_npz_as_specified demo_npz"
  by (simp add: data_npz_as_specified_def demo_npz_def)

lemma demo_npz_shape: "sample_matrix_as_specified demo_npz"
  by (simp add: sample_matrix_as_specified_def demo_npz_def has_shape_def list_all_replicate)

subsection \<open>The loader\<close>

lemma ss_data_args_simps:
  "sep ss_data_args = CHR '';''"
  "header ss_data_args = None"
  "filepath ss_data_args = ''SN_m_tot_V2.0.csv''"
  "length (names ss_data_args) = 7"
  by (simp_all add: ss_data_args_def)

lemma demo_records:
  "csv_records (CHR '';'') demo_csv =
     [[''1749'', ''01'', ''1'', ''96.7'', ''-1.0'', ''-1'', ''1''],
      [''1749'', ''02'', ''3'', ''104.3'', ''-1.0'', ''-1'', ''1'']]"
  by (simp add: csv_records_def demo_csv_def)

lemma demo_plain: "plain_csv ss_data_args demo_csv"
proof -
  have b: "CHR 0x22 \<notin> set demo_csv" "CHR 0x0D \<notin> set demo_csv"
    by (simp_all add: demo_csv_def)
  show ?thesis by (simp add: plain_csv_def ss_data_args_simps b demo_records)
qed

text \<open>
  C1. The loader passes the separator \<open>;\<close>, no header row and the seven column names
  of the notebook's table, in that order. It depends on the file system at the one
  path \<open>SN_m_tot_V2.0.csv\<close> only. On a plain file of seven fields a line it binds
  \<open>ss_data\<close> to the table whose columns are the seven names and whose rows are all
  the non-blank lines of the file (the first line included), each split at \<open>;\<close> into
  seven fields, and it records one read of that file.
\<close>

theorem loader_schema:
  fixes L :: "('m, 'g, 'o) lib" and s :: "('m, 'g, 'o) nb"
  shows "sep ss_data_args = CHR '';'' \<and> header ss_data_args = None \<and>
     names ss_data_args =
       [''Year'', ''Month'', ''Date in fraction of year'', ''Monthly mean'',
        ''Monthly standard deviation'', ''Number of observations'',
        ''Definitive/provisional marker''] \<and>
     length (names ss_data_args) = 7 \<and>
     (fs (filepath ss_data_args) = fs' (filepath ss_data_args)
        \<longrightarrow> cell_read_csv L fs s = cell_read_csv L fs' s) \<and>
     (fs (filepath ss_data_args) = Some txt \<and> plain_csv ss_data_args txt \<longrightarrow>
        cell_read_csv L fs s =
          (s\<lparr>v_ss_data := Some \<lparr>columns = names ss_data_args,
                 rows = map (split_on (CHR '';''))
                          (filter (\<lambda>ln. ln \<noteq> []) (split_on (CHR 0x0A) txt))\<rparr>,
             events := events s @ [FileRead ''SN_m_tot_V2.0.csv'']\<rparr>, None) \<and>
        list_all (\<lambda>r. length r = 7)
          (map (split_on (CHR '';'')) (filter (\<lambda>ln. ln \<noteq> []) (split_on (CHR 0x0A) txt))))"
proof -
  note a = ss_data_args_simps
  have n: "names ss_data_args =
       [''Year'', ''Month'', ''Date in fraction of year'', ''Monthly mean'',
        ''Monthly standard deviation'', ''Number of observations'',
        ''Definitive/provisional marker'']"
    by (simp add: ss_data_args_def)
  have f: "cell_read_csv L fs s = cell_read_csv L fs' s"
    if "fs (filepath ss_data_args) = fs' (filepath ss_data_args)"
    using that by (simp add: cell_read_csv_def read_csv_def split: option.splits)
  have p: "cell_read_csv L fs s =
          (s\<lparr>v_ss_data := Some \<lparr>columns = names ss_data_args,
                 rows = map (split_on (CHR '';''))
                          (filter (\<lambda>ln. ln \<noteq> []) (split_on (CHR 0x0A) txt))\<rparr>,
             events := events s @ [FileRead ''SN_m_tot_V2.0.csv'']\<rparr>, None) \<and>
        list_all (\<lambda>r. length r = 7)
          (map (split_on (CHR '';'')) (filter (\<lambda>ln. ln \<noteq> []) (split_on (CHR 0x0A) txt)))"
    if "fs (filepath ss_data_args) = Some txt" "plain_csv ss_data_args txt"
    using that by (simp add: cell_read_csv_def read_csv_def plain_csv_def csv_records_def a)
  show ?thesis using a n f p by blast
qed

theorem loader_schema_witness:
  "cell_read_csv demo_lib demo_fs fresh =
     (fresh\<lparr>v_ss_data := Some \<lparr>columns = names ss_data_args,
          rows = [[''1749'', ''01'', ''1'', ''96.7'', ''-1.0'', ''-1'', ''1''],
                  [''1749'', ''02'', ''3'', ''104.3'', ''-1.0'', ''-1'', ''1'']]\<rparr>,
        events := [FileRead ''SN_m_tot_V2.0.csv'']\<rparr>, None)"
proof -
  have h: "demo_fs (filepath ss_data_args) = Some demo_csv"
    by (simp add: demo_fs_def ss_data_args_simps)
  have r: "map (split_on (CHR '';'')) (filter (\<lambda>ln. ln \<noteq> []) (split_on (CHR 0x0A) demo_csv)) =
     [[''1749'', ''01'', ''1'', ''96.7'', ''-1.0'', ''-1'', ''1''],
      [''1749'', ''02'', ''3'', ''104.3'', ''-1.0'', ''-1'', ''1'']]"
    using demo_records by (simp add: csv_records_def)
  have e: "events (fresh :: (unit, unit, unit) nb) = []" by (simp add: fresh_def)
  from loader_schema [of demo_fs demo_fs demo_lib fresh demo_csv] h demo_plain
  show ?thesis by (simp add: r e)
qed

subsection \<open>The clustering notebook's sample matrix\<close>

text \<open>
  C5. With the file \<open>data.npz\<close> as the spec describes it (two named arrays, one of
  them under the key \<open>data\<close>), the loader of the clustering notebook, run once
  \<open>np\<close> is imported, succeeds and binds \<open>data\<close> to the array stored under the name
  \<open>data\<close>, whatever the other array is, recording one read of the file.
\<close>

theorem load_by_name:
  assumes "fs ''data.npz'' = Some f" and "data_npz_as_specified f"
    and "''np'' \<in> set (x_modules s)"
  shows "\<exists>m other. map_of f ''data'' = Some m \<and>
     set f = {(''data'', m), other} \<and> fst other \<noteq> ''data'' \<and>
     ex_load fs s =
       (s\<lparr>x_data := Some m, x_events := x_events s @ [FileRead ''data.npz'']\<rparr>, None)"
proof -
  from assms(2) obtain k1 m1 k2 m2 where f: "f = [(k1, m1), (k2, m2)]" and d: "k1 \<noteq> k2"
    and k: "k1 = ''data'' \<or> k2 = ''data''"
    unfolding data_npz_as_specified_def
    by (cases f; cases "tl f"; cases "tl (tl f)") auto
  from k show ?thesis
  proof
    assume "k1 = ''data''"
    with d f assms(1,3) show ?thesis
      by (intro exI[of _ m1] exI[of _ "(k2, m2)"])
        (auto simp: ex_load_def need_def npz_getitem_def)
  next
    assume "k2 = ''data''"
    with d f assms(1,3) show ?thesis
      by (intro exI[of _ m2] exI[of _ "(k1, m1)"])
        (auto simp: ex_load_def need_def npz_getitem_def)
  qed
qed

theorem load_by_name_witness:
  "ex_load demo_npz_fs (ex_fresh\<lparr>x_modules := [''np'', ''plt'']\<rparr>) =
     (ex_fresh\<lparr>x_modules := [''np'', ''plt''], x_data := Some (replicate 400 (replicate 10 0)),
        x_events := [FileRead ''data.npz'']\<rparr>, None)"
proof -
  have h: "demo_npz_fs ''data.npz'' = Some demo_npz" by (simp add: demo_npz_fs_def)
  have n: "''np'' \<in> set (x_modules (ex_fresh\<lparr>x_modules := [''np'', ''plt'']\<rparr>))" by simp
  have m: "map_of demo_npz ''data'' = Some (replicate 400 (replicate 10 0))"
    by (simp add: demo_npz_def)
  from load_by_name [of demo_npz_fs demo_npz "ex_fresh\<lparr>x_modules := [''np'', ''plt'']\<rparr>",
      OF h demo_npz_spec n] m
  show ?thesis
    by (auto simp: ex_fresh_def)
qed

lemma after_load_data:
  assumes "c \<in> set after_load"
  shows "x_data (fst (c s)) = x_data s"
  using assms
  by (auto simp: after_load_def ex_import_PCA_def ex_figure_def ex_bar_def ex_axes_def
      ex_import_scipy_def simple_def bind_err_def need_def lookup_def
      split: sum.splits option.splits if_splits)

lemma after_load_reads:
  assumes "c \<in> set after_load"
  shows "filter is_read (x_events (fst (c s))) = filter is_read (x_events s)"
  using assms
  by (auto simp: after_load_def ex_import_PCA_def ex_figure_def ex_bar_def ex_axes_def
      ex_import_scipy_def simple_def bind_err_def need_def lookup_def is_read_def
      split: sum.splits option.splits if_splits)

lemma run_all_exercises:
  assumes "fs ''data.npz'' = Some f" and "map_of f ''data'' = Some m"
  shows "run_stmts (exercises fs) ex_fresh =
     (\<lparr>x_modules = [''np'', ''plt'', ''PCA''], x_data = Some m, x_pca = None,
       x_events = [FileRead ''data.npz'', Plot ''figure'']\<rparr>, Some NameError)"
  using assms
  by (simp add: exercises_def after_load_def ex_magic_def ex_imports_def ex_load_def
      ex_import_PCA_def ex_figure_def ex_bar_def simple_def bind_err_def need_def lookup_def
      npz_getitem_def ex_fresh_def)

text \<open>
  C6. With the sample matrix in \<open>data.npz\<close> of the shape the spec gives it (400 rows
  of 10 entries), Run All over the clustering notebook leaves \<open>data\<close> bound to that
  400 by 10 matrix and has read the file exactly once; every statement after the
  loader, and the whole run of them from any namespace, leaves \<open>data\<close> as it was and
  reads no file.
\<close>

theorem sample_matrix_frame:
  assumes "fs ''data.npz'' = Some f" and "sample_matrix_as_specified f"
  shows "\<exists>m. map_of f ''data'' = Some m \<and> has_shape 400 10 m \<and>
     x_data (fst (run_stmts (exercises fs) ex_fresh)) = Some m \<and>
     filter is_read (x_events (fst (run_stmts (exercises fs) ex_fresh))) = [FileRead ''data.npz''] \<and>
     (\<forall>s. x_data (fst (run_stmts after_load s)) = x_data s \<and>
          filter is_read (x_events (fst (run_stmts after_load s))) = filter is_read (x_events s)) \<and>
     (\<forall>c \<in> set after_load. \<forall>s. x_data (fst (c s)) = x_data s)"
proof -
  from assms(2) obtain m where m: "map_of f ''data'' = Some m" and sh: "has_shape 400 10 m"
    by (auto simp: sample_matrix_as_specified_def split: option.splits)
  have r: "run_stmts (exercises fs) ex_fresh =
     (\<lparr>x_modules = [''np'', ''plt'', ''PCA''], x_data = Some m, x_pca = None,
       x_events = [FileRead ''data.npz'', Plot ''figure'']\<rparr>, Some NameError)"
    using assms(1) m by (rule run_all_exercises)
  have a: "x_data (fst (run_stmts after_load s)) = x_data s" for s
    by (rule run_stmts_frame) (rule after_load_data)
  have b: "filter is_read (x_events (fst (run_stmts after_load s))) = filter is_read (x_events s)" for s
    by (rule run_stmts_frame [where g = "\<lambda>s. filter is_read (x_events s)"]) (rule after_load_reads)
  show ?thesis
    using m sh a b after_load_data by (auto simp: r is_read_def)
qed


theorem sample_matrix_frame_witness:
  "x_data (fst (run_stmts (exercises demo_npz_fs) ex_fresh)) =
     Some (replicate 400 (replicate 10 0)) \<and>
   filter is_read (x_events (fst (run_stmts (exercises demo_npz_fs) ex_fresh))) =
     [FileRead ''data.npz''] \<and>
   x_data (fst (ex_bar (ex_fresh\<lparr>x_data := Some [[1, 2]]\<rparr>))) = Some [[1, 2]] \<and>
   x_data (fst (run_stmts after_load (ex_fresh\<lparr>x_data := Some [[1, 2]]\<rparr>))) = Some [[1, 2]]"
proof -
  have h: "demo_npz_fs ''data.npz'' = Some demo_npz" by (simp add: demo_npz_fs_def)
  have m: "map_of demo_npz ''data'' = Some (replicate 400 (replicate 10 0))"
    by (simp add: demo_npz_def)
  have b: "ex_bar \<in> set after_load" by (simp add: after_load_def)
  note T = sample_matrix_frame [of demo_npz_fs demo_npz, OF h demo_npz_shape]
  from T m have 1: "x_data (fst (run_stmts (exercises demo_npz_fs) ex_fresh)) =
     Some (replicate 400 (replicate 10 0))"
    and 2: "filter is_read (x_events (fst (run_stmts (exercises demo_npz_fs) ex_fresh))) =
     [FileRead ''data.npz'']"
    by auto
  from T b have 3: "x_data (fst (ex_bar (ex_fresh\<lparr>x_data := Some [[1, 2]]\<rparr>))) =
      x_data (ex_fresh\<lparr>x_data := Some [[1, 2]]\<rparr>)"
    by blast
  from T have 4: "x_data (fst (run_stmts after_load (ex_fresh\<lparr>x_data := Some [[1, 2]]\<rparr>))) =
      x_data (ex_fresh\<lparr>x_data := Some [[1, 2]]\<rparr>)"
    by blast
  from 1 2 3 4 show ?thesis by simp
qed

subsection \<open>The time and value arrays\<close>

lemma getitem_index:
  "index_of name (columns df) = Some k \<Longrightarrow>
   getitem df name = Inr (map (\<lambda>r. if k < length r then r ! k else []) (rows df))"
  by (simp add: getitem_def)

text \<open>
  C7. For every table bound to \<open>ss_data\<close> that has the two columns, the extraction
  binds \<open>time\<close> and \<open>ss_number\<close> to arrays of one length, the number of rows of the
  table, and entry \<open>i\<close> of each array is the numeric value of a field of row \<open>i\<close> of
  the table: the field of the column \<open>Date in fraction of year\<close> for \<open>time\<close>, of
  \<open>Monthly mean\<close> for \<open>ss_number\<close> (the third and fourth of the loader's names).
\<close>

theorem arrays_aligned:
  fixes L :: "('m, 'g, 'o) lib" and s :: "('m, 'g, 'o) nb"
  assumes "v_ss_data s = Some df"
    and "index_of ''Date in fraction of year'' (columns df) = Some kt"
    and "index_of ''Monthly mean'' (columns df) = Some kv"
  shows "\<exists>t y. run_stmts [stmt_time L, stmt_ss_number L] s =
       (s\<lparr>v_time := Some t, v_ss_number := Some y\<rparr>, None) \<and>
     length t = length (rows df) \<and> length y = length (rows df) \<and>
     (\<forall>i < length (rows df).
        t ! i = to_float L (if kt < length (rows df ! i) then rows df ! i ! kt else []) \<and>
        y ! i = to_float L (if kv < length (rows df ! i) then rows df ! i ! kv else [])) \<and>
     index_of ''Date in fraction of year'' (names ss_data_args) = Some 2 \<and>
     index_of ''Monthly mean'' (names ss_data_args) = Some 3"
proof -
  define t where "t = map (\<lambda>r. to_float L (if kt < length r then r ! kt else [])) (rows df)"
  define y where "y = map (\<lambda>r. to_float L (if kv < length r then r ! kv else [])) (rows df)"
  have 1: "stmt_time L s = (s\<lparr>v_time := Some t\<rparr>, None)"
    using assms(1,2)
    by (simp add: stmt_time_def simple_def bind_err_def lookup_def getitem_index t_def)
  have 2: "stmt_ss_number L (s\<lparr>v_time := Some t\<rparr>) =
      (s\<lparr>v_time := Some t, v_ss_number := Some y\<rparr>, None)"
    using assms(1,3)
    by (simp add: stmt_ss_number_def simple_def bind_err_def lookup_def getitem_index y_def)
  have r: "run_stmts [stmt_time L, stmt_ss_number L] s =
       (s\<lparr>v_time := Some t, v_ss_number := Some y\<rparr>, None)"
    by (simp add: 1 2)
  have i: "index_of ''Date in fraction of year'' (names ss_data_args) = Some 2"
    "index_of ''Monthly mean'' (names ss_data_args) = Some 3"
    by (simp_all add: ss_data_args_def)
  have l: "length t = length (rows df)" "length y = length (rows df)"
    by (simp_all add: t_def y_def)
  have n: "\<forall>i < length (rows df).
        t ! i = to_float L (if kt < length (rows df ! i) then rows df ! i ! kt else []) \<and>
        y ! i = to_float L (if kv < length (rows df ! i) then rows df ! i ! kv else [])"
    by (simp add: t_def y_def)
  show ?thesis using r i l n by blast
qed

theorem arrays_aligned_witness:
  "\<exists>t y. run_stmts [stmt_time demo_lib, stmt_ss_number demo_lib] (fresh\<lparr>v_ss_data := Some demo_df\<rparr>) =
       (fresh\<lparr>v_ss_data := Some demo_df, v_time := Some t, v_ss_number := Some y\<rparr>, None) \<and>
     length t = 2 \<and> length y = 2 \<and>
     t ! 0 = to_float demo_lib ''1'' \<and> y ! 0 = to_float demo_lib ''96.7'' \<and>
     t ! 1 = to_float demo_lib ''3'' \<and> y ! 1 = to_float demo_lib ''104.3''"
proof -
  have d: "v_ss_data (fresh\<lparr>v_ss_data := Some demo_df\<rparr> :: (unit, unit, unit) nb) = Some demo_df"
    by simp
  have kt: "index_of ''Date in fraction of year'' (columns demo_df) = Some 2"
    and kv: "index_of ''Monthly mean'' (columns demo_df) = Some 3"
    by (simp_all add: demo_df_def ss_data_args_def)
  have r: "rows demo_df =
     [[''1749'', ''01'', ''1'', ''96.7'', ''-1.0'', ''-1'', ''1''],
      [''1749'', ''02'', ''3'', ''104.3'', ''-1.0'', ''-1'', ''1'']]"
    by (simp add: demo_df_def)
  from arrays_aligned [of "fresh\<lparr>v_ss_data := Some demo_df\<rparr>" demo_df 2 3 demo_lib, OF d kt kv]
  obtain t y where
    1: "run_stmts [stmt_time demo_lib, stmt_ss_number demo_lib] (fresh\<lparr>v_ss_data := Some demo_df\<rparr>) =
       (fresh\<lparr>v_ss_data := Some demo_df, v_time := Some t, v_ss_number := Some y\<rparr>, None)"
    and 2: "length t = length (rows demo_df)" "length y = length (rows demo_df)"
    and 3: "\<forall>i < length (rows demo_df).
        t ! i = to_float demo_lib (if 2 < length (rows demo_df ! i) then rows demo_df ! i ! 2 else []) \<and>
        y ! i = to_float demo_lib (if 3 < length (rows demo_df ! i) then rows demo_df ! i ! 3 else [])"
    by blast
  from 3 have "t ! 0 = to_float demo_lib ''1'' \<and> y ! 0 = to_float demo_lib ''96.7''"
    by (simp add: r)
  moreover from 3 have "t ! 1 = to_float demo_lib ''3'' \<and> y ! 1 = to_float demo_lib ''104.3''"
    by (simp add: r)
  moreover have "length t = 2" "length y = 2" using 2 by (simp_all add: r)
  ultimately show ?thesis using 1 by blast
qed

subsection \<open>The network\<close>

lemma list_all_length: "list_all (\<lambda>row. length row = n) W \<longleftrightarrow> (\<forall>row \<in> set W. length row = n)"
  by (simp add: list_all_iff)

lemma linear_call_ok:
  assumes "linear_shape n_in n_out l" and "length x = n_in"
  shows "\<exists>y. linear_call l x = Inr y \<and> length y = n_out"
  using assms by (simp add: linear_shape_def linear_call_def)

lemma Linear_shape: "linear_shape n_in n_out (Linear w0 b0 n_in n_out)"
  by (simp add: linear_shape_def Linear_def list_all_iff)

lemma FCN_init_shapes: "fcn_shapes (FCN_init w0 b0)"
  by (simp add: fcn_shapes_def FCN_init_def Linear_shape)

text \<open>
  C2. The network that \<open>FCN()\<close> builds has three linear layers of the shapes
  135 to 1000, 1000 to 1000 and 1000 to 135. For every network of these shapes and
  every input vector of length 135, \<open>forward\<close> applies the first layer, the
  elementwise maximum with 0, the second layer, the maximum with 0 again, and the
  third layer, whose output of length 135 it returns as it is.
\<close>

theorem forward_three_layers:
  "fcn_shapes (FCN_init w0 b0) \<and>
   (fcn_shapes net \<and> length x = 135 \<longrightarrow>
     (\<exists>out1 out2 y.
        linear_call (fc1 net) x = Inr out1 \<and> length out1 = 1000 \<and>
        linear_call (fc1b net) (map (max 0) out1) = Inr out2 \<and> length out2 = 1000 \<and>
        linear_call (fc2 net) (map (max 0) out2) = Inr y \<and> length y = 135 \<and>
        forward net x = Inr y))"
proof -
  have "\<exists>out1 out2 y.
        linear_call (fc1 net) x = Inr out1 \<and> length out1 = 1000 \<and>
        linear_call (fc1b net) (map (max 0) out1) = Inr out2 \<and> length out2 = 1000 \<and>
        linear_call (fc2 net) (map (max 0) out2) = Inr y \<and> length y = 135 \<and>
        forward net x = Inr y"
    if s: "fcn_shapes net" and x: "length x = 135"
  proof -
    from s have s1: "linear_shape 135 1000 (fc1 net)" and s2: "linear_shape 1000 1000 (fc1b net)"
      and s3: "linear_shape 1000 135 (fc2 net)"
      by (simp_all add: fcn_shapes_def)
    from linear_call_ok [OF s1 x] obtain out1
      where o1: "linear_call (fc1 net) x = Inr out1" "length out1 = 1000" by blast
    have "length (map (max 0) out1) = 1000" using o1 by simp
    from linear_call_ok [OF s2 this] obtain out2
      where o2: "linear_call (fc1b net) (map (max 0) out1) = Inr out2" "length out2 = 1000" by blast
    have "length (map (max 0) out2) = 1000" using o2 by simp
    from linear_call_ok [OF s3 this] obtain y
      where o3: "linear_call (fc2 net) (map (max 0) out2) = Inr y" "length y = 135" by blast
    have "forward net x = Inr y"
      using o1 o2 o3 by (simp add: forward_def bind_err_def relu_def)
    with o1 o2 o3 show ?thesis by blast
  qed
  then show ?thesis using FCN_init_shapes by blast
qed

theorem forward_three_layers_witness:
  "\<exists>y. forward (FCN_init (init_weight demo_lib) (init_bias demo_lib)) (replicate 135 0) = Inr y \<and>
     length y = 135"
proof -
  have x: "length (replicate 135 (0::real)) = 135" by simp
  from forward_three_layers [of "init_weight demo_lib" "init_bias demo_lib"
      "FCN_init (init_weight demo_lib) (init_bias demo_lib)" "replicate 135 0"] x
  show ?thesis by blast
qed


subsection \<open>The split into training and validation windows\<close>

lemma concat_windows:
  "concat (map (\<lambda>i. take w (drop (i * w) xs)) [0..<r]) = take (r * w) xs"
proof (induction r)
  case 0
  then show ?case by simp
next
  case (Suc r)
  have "take (r * w + w) xs = take (r * w) xs @ take w (drop (r * w) xs)"
    by (simp add: take_add)
  with Suc show ?case by (simp add: add.commute)
qed

lemma reshape_ok:
  assumes "0 < r" and "length xs mod r = 0"
  shows "reshape r xs = Inr (map (\<lambda>i. take (length xs div r) (drop (i * (length xs div r)) xs)) [0..<r])"
  using assms by (simp add: reshape_def)

lemma windows_props:
  fixes xs :: "'a list"
  assumes "length xs mod 24 = 0"
  defines "w \<equiv> length xs div 24"
  defines "W \<equiv> map (\<lambda>i. take w (drop (i * w) xs)) [0..<24]"
  shows "length W = 24" and "concat W = xs" and "\<forall>row \<in> set W. length row = w"
    and "\<forall>i < 24. W ! i = take w (drop (i * w) xs)"
proof -
  have lw: "24 * w = length xs" unfolding w_def using assms(1) by presburger
  show "length W = 24" by (simp add: W_def)
  show "concat W = xs" unfolding W_def concat_windows using lw by simp
  show "\<forall>i < 24. W ! i = take w (drop (i * w) xs)" by (simp add: W_def)
  show "\<forall>row \<in> set W. length row = w"
  proof
    fix row assume "row \<in> set W"
    then obtain i where i: "i < 24" and row: "row = take w (drop (i * w) xs)"
      by (auto simp: W_def)
    have "i * w + w \<le> 24 * w"
    proof -
      have "Suc i \<le> 24" using i by simp
      then have "Suc i * w \<le> 24 * w" by (rule mult_le_mono1)
      then show ?thesis by (simp add: add.commute)
    qed
    then have "w \<le> length xs - i * w" using lw by linarith
    then show "length row = w" by (simp add: row)
  qed
qed

text \<open>
  C9. When the number of samples after the first 8 is a multiple of 24, the split
  drops the first 8 samples of the standardised times and of the sunspot numbers and reshapes
  the rest into 24 consecutive windows of equal length; the training set is the
  first 22 windows, the validation set the last 2, so each window is in exactly one
  of the two sets and together they are all 24. With the 3248 samples of the
  notebook's series a window has 135 samples.
\<close>

theorem split_partition:
  fixes s :: "('m, 'g, 'o) nb"
  assumes "v_time_ss s = Some z" and "v_ss_number s = Some y"
    and "length y = length z" and "(length z - 8) mod 24 = 0"
  shows "\<exists>W V. run_stmts [stmt_times_rs, stmt_ss_number_rs, stmt_train_dataset, stmt_val_dataset] s =
       (s\<lparr>v_times_rs := Some W, v_ss_number_rs := Some V,
          v_train_dataset := Some \<lparr>tensors_x = take 22 W, tensors_y = take 22 V\<rparr>,
          v_val_dataset := Some \<lparr>tensors_x = drop 22 W, tensors_y = drop 22 V\<rparr>\<rparr>, None) \<and>
     concat W = drop 8 z \<and> concat V = drop 8 y \<and>
     length W = 24 \<and> length V = 24 \<and>
     (\<forall>i < 24. W ! i = take ((length z - 8) div 24) (drop (8 + i * ((length z - 8) div 24)) z) \<and>
               V ! i = take ((length z - 8) div 24) (drop (8 + i * ((length z - 8) div 24)) y)) \<and>
     (\<forall>row \<in> set W \<union> set V. length row = (length z - 8) div 24) \<and>
     (length z = 3248 \<longrightarrow> (length z - 8) div 24 = 135) \<and>
     length (take 22 W) = 22 \<and> length (drop 22 W) = 2 \<and> take 22 W @ drop 22 W = W \<and>
     length (take 22 V) = 22 \<and> length (drop 22 V) = 2 \<and> take 22 V @ drop 22 V = V \<and>
     (\<forall>i < 22. take 22 W ! i = W ! i \<and> take 22 V ! i = V ! i) \<and>
     (\<forall>i < 2. drop 22 W ! i = W ! (22 + i) \<and> drop 22 V ! i = V ! (22 + i))"
proof -
  define w where "w = (length z - 8) div 24"
  define W where "W = map (\<lambda>i. take w (drop (i * w) (drop 8 z))) [0..<24]"
  define V where "V = map (\<lambda>i. take w (drop (i * w) (drop 8 y))) [0..<24]"
  have mz: "length (drop 8 z) mod 24 = 0" and my: "length (drop 8 y) mod 24 = 0"
    using assms(3,4) by simp_all
  have wz: "w = length (drop 8 z) div 24" and wy: "w = length (drop 8 y) div 24"
    using assms(3) by (simp_all add: w_def)
  note pz = windows_props [OF mz, folded wz, folded W_def]
  note py = windows_props [OF my, folded wy, folded V_def]
  have rz: "reshape 24 (drop 8 z) = Inr W" and ry: "reshape 24 (drop 8 y) = Inr V"
    using mz my reshape_ok [of 24 "drop 8 z"] reshape_ok [of 24 "drop 8 y"]
    unfolding W_def V_def wz [symmetric] wy [symmetric] by simp_all
  let ?s1 = "s\<lparr>v_times_rs := Some W\<rparr>"
  let ?s2 = "s\<lparr>v_times_rs := Some W, v_ss_number_rs := Some V\<rparr>"
  let ?s3 = "s\<lparr>v_times_rs := Some W, v_ss_number_rs := Some V,
          v_train_dataset := Some \<lparr>tensors_x = take 22 W, tensors_y = take 22 V\<rparr>\<rparr>"
  let ?s4 = "s\<lparr>v_times_rs := Some W, v_ss_number_rs := Some V,
          v_train_dataset := Some \<lparr>tensors_x = take 22 W, tensors_y = take 22 V\<rparr>,
          v_val_dataset := Some \<lparr>tensors_x = drop 22 W, tensors_y = drop 22 V\<rparr>\<rparr>"
  have 1: "stmt_times_rs s = (?s1, None)"
    using assms(1) rz by (simp add: stmt_times_rs_def simple_def bind_err_def lookup_def)
  have 2: "stmt_ss_number_rs ?s1 = (?s2, None)"
    using assms(2) ry by (simp add: stmt_ss_number_rs_def simple_def bind_err_def lookup_def)
  have 3: "stmt_train_dataset ?s2 = (?s3, None)"
    using pz(1) py(1)
    by (simp add: stmt_train_dataset_def simple_def bind_err_def lookup_def
        new_TensorDataset_def but_last_n_def)
  have 4: "stmt_val_dataset ?s3 = (?s4, None)"
    using pz(1) py(1)
    by (simp add: stmt_val_dataset_def simple_def bind_err_def lookup_def
        new_TensorDataset_def last_n_def)
  have r: "run_stmts [stmt_times_rs, stmt_ss_number_rs, stmt_train_dataset, stmt_val_dataset] s =
      (?s4, None)"
    by (simp add: 1 2 3 4)
  have n: "\<forall>i < 24. W ! i = take w (drop (8 + i * w) z) \<and> V ! i = take w (drop (8 + i * w) y)"
    using pz(4) py(4) by (simp add: add.commute)
  have l: "\<forall>row \<in> set W \<union> set V. length row = w"
    using pz(3) py(3) by blast
  have k: "length z = 3248 \<longrightarrow> w = 135" by (simp add: w_def)
  have t: "length (take 22 W) = 22" "length (drop 22 W) = 2" "take 22 W @ drop 22 W = W"
    "length (take 22 V) = 22" "length (drop 22 V) = 2" "take 22 V @ drop 22 V = V"
    using pz(1) py(1) by simp_all
  have i1: "\<forall>i < 22. take 22 W ! i = W ! i \<and> take 22 V ! i = V ! i" by simp
  have i2: "\<forall>i < 2. drop 22 W ! i = W ! (22 + i) \<and> drop 22 V ! i = V ! (22 + i)"
    using pz(1) py(1) by simp
  show ?thesis
    apply (rule exI [of _ W], rule exI [of _ V])
    using r pz(1,2) py(1,2) n l k t i1 i2 unfolding w_def [symmetric]
    by blast
qed

theorem split_partition_witness:
  "\<exists>W V. run_stmts [stmt_times_rs, stmt_ss_number_rs, stmt_train_dataset, stmt_val_dataset]
       (fresh\<lparr>v_time_ss := Some (replicate 3248 0), v_ss_number := Some (replicate 3248 1)\<rparr>
          :: (unit, unit, unit) nb) =
       (fresh\<lparr>v_time_ss := Some (replicate 3248 0), v_ss_number := Some (replicate 3248 1),
          v_times_rs := Some W, v_ss_number_rs := Some V,
          v_train_dataset := Some \<lparr>tensors_x = take 22 W, tensors_y = take 22 V\<rparr>,
          v_val_dataset := Some \<lparr>tensors_x = drop 22 W, tensors_y = drop 22 V\<rparr>\<rparr>, None) \<and>
     length W = 24 \<and> length V = 24 \<and>
     list_all (\<lambda>row. length row = 135) (W @ V) \<and>
     concat W = replicate 3240 0 \<and> concat V = replicate 3240 1"
proof -
  let ?s = "fresh\<lparr>v_time_ss := Some (replicate 3248 0), v_ss_number := Some (replicate 3248 1)\<rparr>
          :: (unit, unit, unit) nb"
  have a: "v_time_ss ?s = Some (replicate 3248 0)" "v_ss_number ?s = Some (replicate 3248 1)"
    by simp_all
  have b: "length (replicate 3248 (1::real)) = length (replicate 3248 (0::real))"
    "(length (replicate 3248 (0::real)) - 8) mod 24 = 0"
    by simp_all
  from split_partition [of ?s "replicate 3248 0" "replicate 3248 1", OF a b]
  obtain W V where
    1: "run_stmts [stmt_times_rs, stmt_ss_number_rs, stmt_train_dataset, stmt_val_dataset] ?s =
       (?s\<lparr>v_times_rs := Some W, v_ss_number_rs := Some V,
          v_train_dataset := Some \<lparr>tensors_x = take 22 W, tensors_y = take 22 V\<rparr>,
          v_val_dataset := Some \<lparr>tensors_x = drop 22 W, tensors_y = drop 22 V\<rparr>\<rparr>, None)"
    and 2: "concat W = drop 8 (replicate 3248 0)" "concat V = drop 8 (replicate 3248 1)"
    and 3: "length W = 24" "length V = 24"
    and 4: "\<forall>row \<in> set W \<union> set V.
        length row = (length (replicate 3248 (0::real)) - 8) div 24"
    by blast
  from 4 have 5: "list_all (\<lambda>row. length row = 135) (W @ V)"
    by (simp add: list_all_iff)
  from 2 have 6: "concat W = replicate 3240 0" "concat V = replicate 3240 1"
    by simp_all
  from 1 3 5 6 show ?thesis by blast
qed

subsection \<open>The validation phase\<close>

lemma val_stmts_trained:
  "trained_state (fst (set_mode b s)) = trained_state s"
  "trained_state (fst (e_losses s)) = trained_state s"
  "trained_state (fst (t_unpack batch s)) = trained_state s"
  "trained_state (fst (t_model s)) = trained_state s"
  "trained_state (fst (t_l L s)) = trained_state s"
  "trained_state (fst (val_append s)) = trained_state s"
  "trained_state (fst (e_print s)) = trained_state s"
  by (auto simp: set_mode_def e_losses_def t_unpack_def t_model_def t_l_def val_append_def
      e_print_def simple_def bind_err_def lookup_def trained_state_def weights_def
      split: option.splits sum.splits)

lemma val_body_trained: "trained_state (fst (val_body L batch s)) = trained_state s"
  unfolding val_body_def
  by (rule run_stmts_frame) (auto simp: val_stmts_trained)

lemma val_loop_trained:
  "trained_state (fst (for_loader v_val_loader (val_body L) s)) = trained_state s"
  by (rule for_loader_frame) (rule val_body_trained)

lemma validation_phase_trained: "trained_state (fst (validation_phase L s)) = trained_state s"
  unfolding validation_phase_def
  by (rule run_stmts_frame) (auto simp: val_stmts_trained val_loop_trained)

text \<open>
  C10. From every namespace, whether it ends normally or in an exception, the
  validation phase of an epoch (\<open>fcn.eval()\<close>, \<open>losses = []\<close> and the loop over
  \<open>val_loader\<close> under \<open>torch.no_grad()\<close>) leaves the weights of the network, the
  optimiser and the gradient buffers as they were; so the weights at the end of an
  epoch are those its training phase left.
\<close>

theorem validation_keeps_weights:
  fixes L :: "('m, 'g, 'o) lib" and s :: "('m, 'g, 'o) nb"
  shows "map_option weights (v_fcn (fst (validation_phase L s))) = map_option weights (v_fcn s) \<and>
     v_optimiser (fst (validation_phase L s)) = v_optimiser s \<and>
     v_grad (fst (validation_phase L s)) = v_grad s \<and>
     map_option weights (v_fcn (fst (epoch L j s))) =
       map_option weights (v_fcn (fst (run_stmts [e_j j, train_phase L] s)))"
proof -
  have v: "trained_state (fst (validation_phase L s)) = trained_state s"
    by (rule validation_phase_trained)
  have t: "trained_state (fst (run_stmts [validation_phase L, e_print] s')) = trained_state s'"
    for s' :: "('m, 'g, 'o) nb"
    by (rule run_stmts_frame) (auto simp: validation_phase_trained val_stmts_trained)
  have e: "epoch L j s = run_stmts ([e_j j, train_phase L] @ [validation_phase L, e_print]) s"
    by (simp add: epoch_def)
  obtain s1 r1 where run: "run_stmts [e_j j, train_phase L] s = (s1, r1)"
    by (cases "run_stmts [e_j j, train_phase L] s")
  have "trained_state (fst (epoch L j s)) = trained_state s1"
  proof (cases r1)
    case None
    then have "epoch L j s = run_stmts [validation_phase L, e_print] s1"
      by (simp only: e run_stmts_append run prod.case option.case)
    then show ?thesis by (simp only: t)
  next
    case (Some err)
    then have "epoch L j s = (s1, Some err)"
      by (simp only: e run_stmts_append run prod.case option.case)
    then show ?thesis by simp
  qed
  then have "trained_state (fst (epoch L j s)) = trained_state (fst (run_stmts [e_j j, train_phase L] s))"
    by (simp only: run fst_conv)
  with v show ?thesis by (simp add: trained_state_def)
qed


subsection \<open>The training loop\<close>

lemma forward_ok:
  assumes s: "fcn_shapes net" and x: "length x = 135"
  shows "\<exists>y. forward net x = Inr y \<and> length y = 135"
proof -
  from s have s1: "linear_shape 135 1000 (fc1 net)" and s2: "linear_shape 1000 1000 (fc1b net)"
    and s3: "linear_shape 1000 135 (fc2 net)"
    by (simp_all add: fcn_shapes_def)
  from linear_call_ok [OF s1 x] obtain out1
    where o1: "linear_call (fc1 net) x = Inr out1" "length out1 = 1000" by blast
  have "length (relu out1) = 1000" using o1 by (simp add: relu_def)
  from linear_call_ok [OF s2 this] obtain out2
    where o2: "linear_call (fc1b net) (relu out1) = Inr out2" "length out2 = 1000" by blast
  have "length (relu out2) = 1000" using o2 by (simp add: relu_def)
  from linear_call_ok [OF s3 this] obtain y
    where o3: "linear_call (fc2 net) (relu out2) = Inr y" "length y = 135" by blast
  have "forward net x = Inr y"
    using o1 o2 o3 by (simp add: forward_def bind_err_def)
  with o3 show ?thesis by blast
qed

lemma forward_batch_ok:
  assumes "fcn_shapes net" and "list_all (\<lambda>row. length row = 135) X"
  shows "\<exists>Y. forward_batch net X = Inr Y"
  using assms(2)
proof (induction X)
  case Nil
  then show ?case by (simp add: forward_batch_def)
next
  case (Cons x X)
  then obtain Y where Y: "all_ok (map (forward net) X) = Inr Y"
    by (auto simp: forward_batch_def)
  from Cons.prems forward_ok [OF assms(1), of x] obtain y where y: "forward net x = Inr y"
    by auto
  show ?case using Y y by (simp add: forward_batch_def)
qed

lemma run_stmts_map_inv:
  assumes "\<And>b s. b \<in> set bs \<Longrightarrow> I s \<Longrightarrow> \<exists>s'. body b s = (s', None) \<and> I s'"
    and "I s"
  shows "\<exists>s'. run_stmts (map body bs) s = (s', None) \<and> I s'"
  using assms
proof (induction bs arbitrary: s)
  case Nil
  then show ?case by simp
next
  case (Cons b bs)
  from Cons.prems(1) [of b s] Cons.prems(2) obtain s1 where 1: "body b s = (s1, None)" "I s1"
    by auto
  from Cons.IH [of s1] Cons.prems(1) 1(2) obtain s' where
    "run_stmts (map body bs) s1 = (s', None)" "I s'"
    by auto
  with 1 show ?case by simp
qed

lemma batches_rows:
  assumes "rows135 dl" and "b \<in> set (batches dl)"
  shows "list_all (\<lambda>row. length row = 135) (fst b)"
proof -
  from assms(2) obtain i where
    "fst b = take (batch_size dl) (drop (i * batch_size dl) (tensors_x (dataset dl)))"
    by (auto simp: batches_def)
  then have "set (fst b) \<subseteq> set (tensors_x (dataset dl))"
    by (metis set_drop_subset set_take_subset subset_trans)
  with assms(1) show ?thesis by (auto simp: rows135_def list_all_iff)
qed

lemma train_body_ok:
  fixes L :: "('m, 'g, 'o) lib" and s :: "('m, 'g, 'o) nb"
  assumes inv: "train_inv trl vl s" and rows: "list_all (\<lambda>row. length row = 135) (fst batch)"
    and ks: "keeps_shapes L"
  shows "\<exists>s'. train_body L batch s = (s', None) \<and> train_inv trl vl s' \<and>
           events s' = events s \<and> v_j s' = v_j s"
proof -
  from inv obtain net opt where n: "v_fcn s = Some net" "fcn_shapes net"
    and o: "v_optimiser s = Some opt" "opt_lr opt = 5 / 1000"
    and r: "v_loss s = Some ()" "v_train_loader s = Some trl" "v_val_loader s = Some vl"
      "v_n_epochs s = Some 100"
    by (auto simp: train_inv_def split: option.splits)
  from forward_batch_ok [OF n(2) rows] obtain Y where Y: "forward_batch net (fst batch) = Inr Y"
    by blast
  obtain st' net' where a:
    "adam_step L (opt_lr opt) (opt_state opt) (backward L net (fst batch) (snd batch)) net = (st', net')"
    by (cases "adam_step L (opt_lr opt) (opt_state opt) (backward L net (fst batch) (snd batch)) net")
  from ks n(2) have "fcn_shapes (snd (adam_step L (opt_lr opt) (opt_state opt)
      (backward L net (fst batch) (snd batch)) net))"
    unfolding keeps_shapes_def by blast
  with a have n': "fcn_shapes net'" by simp
  show ?thesis
    using n o r Y a n'
    by (simp add: train_body_def t_unpack_def t_zero_grad_def t_model_def t_l_def
        t_backward_def t_step_def simple_def bind_err_def lookup_def train_inv_def)
qed

lemma val_body_ok:
  fixes L :: "('m, 'g, 'o) lib" and s :: "('m, 'g, 'o) nb"
  assumes inv: "train_inv trl vl s" and rows: "list_all (\<lambda>row. length row = 135) (fst batch)"
    and ls: "v_losses s \<noteq> None"
  shows "\<exists>s'. val_body L batch s = (s', None) \<and> train_inv trl vl s' \<and>
           events s' = events s \<and> v_j s' = v_j s \<and> v_losses s' \<noteq> None"
proof -
  from inv obtain net where n: "v_fcn s = Some net" "fcn_shapes net"
    and r: "v_loss s = Some ()"
    by (auto simp: train_inv_def split: option.splits)
  from ls obtain l0 where l0: "v_losses s = Some l0" by auto
  from forward_batch_ok [OF n(2) rows] obtain Y where Y: "forward_batch net (fst batch) = Inr Y"
    by blast
  show ?thesis
    using n r Y l0 inv
    by (simp add: val_body_def t_unpack_def t_model_def t_l_def val_append_def
        simple_def bind_err_def lookup_def train_inv_def)
qed

lemma epoch_ok:
  fixes L :: "('m, 'g, 'o) lib" and s :: "('m, 'g, 'o) nb"
  assumes inv: "train_inv trl vl s" and tr: "rows135 trl" and va: "rows135 vl"
    and ks: "keeps_shapes L"
  shows "\<exists>s' x. epoch L j s = (s', None) \<and> train_inv trl vl s' \<and>
           events s' = events s @ [PrintLoss j x] \<and> v_j s' = Some j"
proof -
  let ?I = "\<lambda>E (s' :: ('m, 'g, 'o) nb). train_inv trl vl s' \<and> events s' = E \<and> v_j s' = Some j"
  \<comment> \<open>\<open>j = ...\<close>\<close>
  have 1: "e_j j s = (s\<lparr>v_j := Some j\<rparr>, None)" by (simp add: e_j_def simple_def)
  have i1: "?I (events s) (s\<lparr>v_j := Some j\<rparr>)"
    using inv by (simp add: train_inv_def)
  \<comment> \<open>\<open>fcn.train()\<close>\<close>
  obtain s2 where 2: "set_mode True (s\<lparr>v_j := Some j\<rparr>) = (s2, None)" and i2: "?I (events s) s2"
    using i1 by (auto simp: set_mode_def simple_def bind_err_def lookup_def train_inv_def
        fcn_shapes_def split: option.splits)
  \<comment> \<open>the training loop\<close>
  have trl2: "v_train_loader s2 = Some trl" using i2 by (simp add: train_inv_def)
  have "\<exists>s'. run_stmts (map (train_body L) (batches trl)) s2 = (s', None) \<and> ?I (events s) s'"
  proof (rule run_stmts_map_inv [where I = "?I (events s)"])
    fix b and s0 :: "('m, 'g, 'o) nb"
    assume b: "b \<in> set (batches trl)" and "?I (events s) s0"
    with train_body_ok [OF _ batches_rows [OF tr b] ks, of trl vl s0]
    show "\<exists>s'. train_body L b s0 = (s', None) \<and> ?I (events s) s'" by auto
  qed (rule i2)
  then obtain s3 where 3: "for_loader v_train_loader (train_body L) s2 = (s3, None)"
    and i3: "?I (events s) s3"
    using trl2 by (auto simp: for_loader_def lookup_def)
  have tp: "train_phase L (s\<lparr>v_j := Some j\<rparr>) = (s3, None)"
    by (simp add: train_phase_def 2 3)
  \<comment> \<open>\<open>fcn.eval()\<close>, \<open>losses = []\<close>\<close>
  obtain s4 where 4: "set_mode False s3 = (s4, None)" and i4: "?I (events s) s4"
    using i3 by (auto simp: set_mode_def simple_def bind_err_def lookup_def train_inv_def
        fcn_shapes_def split: option.splits)
  have 5: "e_losses s4 = (s4\<lparr>v_losses := Some []\<rparr>, None)" by (simp add: e_losses_def simple_def)
  let ?J = "\<lambda>s' :: ('m, 'g, 'o) nb. ?I (events s) s' \<and> v_losses s' \<noteq> None"
  have i5: "?J (s4\<lparr>v_losses := Some []\<rparr>)" using i4 by (simp add: train_inv_def)
  have vl5: "v_val_loader (s4\<lparr>v_losses := Some []\<rparr>) = Some vl" using i4 by (simp add: train_inv_def)
  have "\<exists>s'. run_stmts (map (val_body L) (batches vl)) (s4\<lparr>v_losses := Some []\<rparr>) = (s', None) \<and> ?J s'"
  proof (rule run_stmts_map_inv [where I = ?J])
    fix b and s0 :: "('m, 'g, 'o) nb"
    assume b: "b \<in> set (batches vl)" and "?J s0"
    with val_body_ok [OF _ batches_rows [OF va b], of trl vl s0 L]
    show "\<exists>s'. val_body L b s0 = (s', None) \<and> ?J s'" by auto
  qed (rule i5)
  then obtain s6 where 6: "for_loader v_val_loader (val_body L) (s4\<lparr>v_losses := Some []\<rparr>) = (s6, None)"
    and i6: "?J s6"
    using vl5 by (auto simp: for_loader_def lookup_def)
  have vp: "validation_phase L s3 = (s6, None)"
    by (simp add: validation_phase_def 4 5 6)
  \<comment> \<open>\<open>print(...)\<close>\<close>
  from i6 obtain l6 where l6: "v_losses s6 = Some l6" by auto
  have 7: "e_print s6 = (s6\<lparr>events := events s6 @ [PrintLoss j (mean l6)]\<rparr>, None)"
    using i6 l6 by (simp add: e_print_def simple_def bind_err_def lookup_def)
  have "epoch L j s = (s6\<lparr>events := events s6 @ [PrintLoss j (mean l6)]\<rparr>, None)"
    by (simp add: epoch_def 1 tp vp 7)
  moreover have "train_inv trl vl (s6\<lparr>events := events s6 @ [PrintLoss j (mean l6)]\<rparr>)"
    using i6 by (simp add: train_inv_def)
  ultimately show ?thesis using i6 by auto
qed

lemma epochs_ok:
  fixes L :: "('m, 'g, 'o) lib" and s :: "('m, 'g, 'o) nb"
  assumes inv: "train_inv trl vl s" and tr: "rows135 trl" and va: "rows135 vl"
    and ks: "keeps_shapes L"
  shows "\<exists>s' ls. run_stmts (map (epoch L) [0..<n]) s = (s', None) \<and> train_inv trl vl s' \<and>
           length ls = n \<and> events s' = events s @ map2 PrintLoss [0..<n] ls \<and>
           (0 < n \<longrightarrow> v_j s' = Some (n - 1))"
proof (induction n)
  case 0
  then show ?case using inv by simp
next
  case (Suc n)
  then obtain s1 ls where 1: "run_stmts (map (epoch L) [0..<n]) s = (s1, None)"
    and i1: "train_inv trl vl s1" and l1: "length ls = n"
    and e1: "events s1 = events s @ map2 PrintLoss [0..<n] ls"
    by blast
  from epoch_ok [OF i1 tr va ks, of n] obtain s2 x where 2: "epoch L n s1 = (s2, None)"
    and i2: "train_inv trl vl s2" and e2: "events s2 = events s1 @ [PrintLoss n x]"
    and j2: "v_j s2 = Some n"
    by blast
  have r: "run_stmts (map (epoch L) [0..<Suc n]) s = (s2, None)"
    by (simp add: run_stmts_append 1 2)
  have z: "map2 PrintLoss [0..<Suc n] (ls @ [x]) = map2 PrintLoss [0..<n] ls @ [PrintLoss n x]"
    using l1 by simp
  have "events s2 = events s @ map2 PrintLoss [0..<Suc n] (ls @ [x])"
    unfolding z using e1 e2 by simp
  moreover have "length (ls @ [x]) = Suc n" using l1 by simp
  ultimately show ?case using r i2 j2 by (intro exI [of _ s2] exI [of _ "ls @ [x]"]) simp
qed

lemma setup_ok:
  fixes L :: "('m, 'g, 'o) lib" and s :: "('m, 'g, 'o) nb"
  assumes "v_train_loader s = Some trl" and "v_val_loader s = Some vl"
  shows "\<exists>s'. run_stmts (setup_cell L) s = (s', None) \<and> train_inv trl vl s' \<and>
           events s' = events s @ [CreateOptimiser (5 / 1000)]"
  using assms FCN_init_shapes [of "init_weight L" "init_bias L"]
  by (simp add: setup_cell_def stmt_fcn_def stmt_n_epochs_def stmt_lr_def stmt_optimiser_def
      stmt_loss_def simple_def bind_err_def lookup_def train_inv_def)

text \<open>
  C4. From every namespace in which the two loaders are bound to samples of 135
  entries, and with an optimiser update that keeps the shapes of the parameters, the
  set-up cell followed by the training cell ends without an exception: it creates
  one Adam optimiser with learning rate 0.005, before the loop, and then runs exactly
  100 epochs, numbered 0 to 99 in order, each printing its validation loss once;
  \<open>n_epochs\<close> is 100 and the optimiser still has the learning rate 0.005 at the end.
\<close>

theorem training_runs_100_epochs:
  fixes L :: "('m, 'g, 'o) lib" and s :: "('m, 'g, 'o) nb"
  assumes "v_train_loader s = Some trl" and "v_val_loader s = Some vl"
    and "rows135 trl" and "rows135 vl" and "keeps_shapes L"
  shows "\<exists>s' ls. run_stmts (setup_cell L @ [cell_train L]) s = (s', None) \<and>
     length ls = 100 \<and>
     events s' = events s @ CreateOptimiser (5 / 1000) # map2 PrintLoss [0..<100] ls \<and>
     v_n_epochs s' = Some 100 \<and> v_j s' = Some 99 \<and>
     (\<exists>opt. v_optimiser s' = Some opt \<and> opt_lr opt = 5 / 1000)"
proof -
  from setup_ok [OF assms(1,2), of L] obtain s1 where 1: "run_stmts (setup_cell L) s = (s1, None)"
    and i1: "train_inv trl vl s1" and e1: "events s1 = events s @ [CreateOptimiser (5 / 1000)]"
    by blast
  from epochs_ok [OF i1 assms(3,4,5), of 100] obtain s2 ls where
    2: "run_stmts (map (epoch L) [0..<100]) s1 = (s2, None)"
    and i2: "train_inv trl vl s2" and l2: "length ls = 100"
    and e2: "events s2 = events s1 @ map2 PrintLoss [0..<100] ls"
    and j2: "v_j s2 = Some 99"
    by auto
  have n1: "v_n_epochs s1 = Some 100" using i1 by (simp add: train_inv_def)
  have t: "cell_train L s1 = (s2, None)"
    using 2 by (simp only: cell_train_def n1 lookup_def option.case sum.case)
  have r: "run_stmts (setup_cell L @ [cell_train L]) s = (s2, None)"
    by (simp only: run_stmts_append 1 t prod.case option.case run_stmts.simps)
  have o: "\<exists>opt. v_optimiser s2 = Some opt \<and> opt_lr opt = 5 / 1000"
    using i2 by (auto simp: train_inv_def split: option.splits)
  have n2: "v_n_epochs s2 = Some 100" using i2 by (simp add: train_inv_def)
  have "events s2 = events s @ CreateOptimiser (5 / 1000) # map2 PrintLoss [0..<100] ls"
    using e1 e2 by simp
  with r l2 n2 j2 o show ?thesis by blast
qed

lemma demo_keeps_shapes: "keeps_shapes demo_lib"
  by (simp add: keeps_shapes_def demo_lib_def)

lemma demo_loader_rows: "rows135 (demo_loader n)"
  by (simp add: rows135_def demo_loader_def list_all_replicate)

theorem training_runs_100_epochs_witness:
  "\<exists>s' ls. run_stmts (setup_cell demo_lib @ [cell_train demo_lib])
       (fresh\<lparr>v_train_loader := Some (demo_loader 22), v_val_loader := Some (demo_loader 2)\<rparr>) =
       (s', None) \<and>
     length ls = 100 \<and>
     events s' = CreateOptimiser (5 / 1000) # map2 PrintLoss [0..<100] ls \<and>
     v_n_epochs s' = Some 100 \<and> v_j s' = Some 99"
proof -
  let ?s = "fresh\<lparr>v_train_loader := Some (demo_loader 22), v_val_loader := Some (demo_loader 2)\<rparr>
    :: (unit, unit, unit) nb"
  have a: "v_train_loader ?s = Some (demo_loader 22)" "v_val_loader ?s = Some (demo_loader 2)"
    by simp_all
  have e: "events ?s = []" by (simp add: fresh_def)
  from training_runs_100_epochs [of ?s "demo_loader 22" "demo_loader 2" demo_lib,
      OF a demo_loader_rows demo_loader_rows demo_keeps_shapes]
  show ?thesis unfolding e by auto
qed


subsection \<open>Standardising the time column\<close>

lemma bind_err_Inr:
  "bind_err r f = Inr v \<longleftrightarrow> (\<exists>x. r = Inr x \<and> f x = Inr v)"
  by (cases r) (simp_all add: bind_err_def)

lemma stmt_svr_fit_prepared: "prepared (fst (stmt_svr_fit L s)) = prepared s"
  unfolding stmt_svr_fit_def
  by (rule simple_frame) (auto simp: bind_err_Inr prepared_def)

lemma cell_svr_fit_prepared: "prepared (fst (cell_svr_fit L s)) = prepared s"
  using stmt_svr_fit_prepared [of L s]
  by (cases "stmt_svr_fit L s")
    (auto simp: cell_svr_fit_def time_magic_def prepared_def split: option.splits)
























subsection \<open>Exceptions\<close>


lemma forward_training [simp]: "forward (net\<lparr>training := b\<rparr>) = forward net"
  by (rule ext) (simp add: forward_def)












end
